theory Spec2Isabelle
  imports Main "HOL-Library.AList" "HOL-Library.Word"
begin

unbundle bit_operations_syntax

section \<open>The process: sockets, standard output, uncaught errors\<close>

text \<open>
  The program is the script \<^verbatim>\<open>index.js\<close>:
  \<^verbatim>\<open>
  import express from 'express';
  const app = express();
  app.get('/', (req, res) => {
      res.send('Good Afternoon!');
  });

  app.listen(3000);
  console.log('Server is listening on http://localhost:3000');
  \<close>
  Its statements act on two things: the Express application \<open>app\<close> (a table of
  routes) and the Node process (sockets, standard output, the queue of the next tick).
  Both are modelled by explicit state passing. What the script calls but does not define
  (Express's router and \<open>res.send\<close>, Node's \<open>listen\<close> and \<open>console.log\<close>) is modelled
  after the library function named beside each definition.
\<close>

text \<open>
  What the process does, in the order it does it: \<open>Bound p\<close> a listening socket is bound
  to port \<open>p\<close>; \<open>BindFailed p code\<close> the bind of port \<open>p\<close> failed with the system error
  \<open>code\<close>; \<open>Stdout s\<close> the line \<open>s\<close> is written to standard output; \<open>Uncaught code\<close> an
  \<open>'error'\<close> event nobody listens to is thrown, the runtime reports it on standard error
  and the process exits with status 1.
\<close>

datatype event = Bound nat | BindFailed nat string | Stdout string | Uncaught string

text \<open>
  The process state: its \<open>trace\<close>, the \<open>'error'\<close> events queued with
  \<open>process.nextTick\<close>, and the listeners registered for the server's \<open>'error'\<close> event
  (each maps the error code to what it does).
\<close>

record process =
  trace :: "event list"
  ticks :: "string list"
  on_error :: "(string \<Rightarrow> event list) list"

text \<open>
  What the process is started with. The script reads neither \<open>argv\<close> nor \<open>env\<close>;
  \<open>bind_errno p\<close> is what the operating system answers to a bind of port \<open>p\<close>: \<open>None\<close> when
  it succeeds, the error code (\<open>EADDRINUSE\<close>, \<open>EACCES\<close>) when it does not.
\<close>

record environment =
  argv :: "string list"
  env :: "(string \<times> string) list"
  bind_errno :: "nat \<Rightarrow> string option"

definition boot :: process where
  "boot = \<lparr>trace = [], ticks = [], on_error = []\<rparr>"

text \<open>
  \<open>app.listen(port)\<close> is \<open>http.createServer(app).listen(port)\<close>. With a port and no host
  Node binds and listens inside the call; a failure is not thrown but queued as an
  \<open>'error'\<close> event for the next tick (\<open>net.js\<close>, \<open>setupListenHandle\<close>).
\<close>

definition app_listen :: "environment \<Rightarrow> nat \<Rightarrow> process \<Rightarrow> process" where
  "app_listen e port p =
     (case bind_errno e port of
        None \<Rightarrow> p\<lparr>trace := trace p @ [Bound port]\<rparr>
      | Some code \<Rightarrow> p\<lparr>trace := trace p @ [BindFailed port code], ticks := ticks p @ [code]\<rparr>)"

definition console_log :: "string \<Rightarrow> process \<Rightarrow> process" where
  "console_log line p = p\<lparr>trace := trace p @ [Stdout line]\<rparr>"

text \<open>
  The next tick, run once the script has returned: each queued \<open>'error'\<close> event is given
  to the listeners; with none registered it is thrown, which ends the process
  (\<open>events.js\<close>: an unhandled \<open>'error'\<close> event).
\<close>

fun emit_errors :: "string list \<Rightarrow> process \<Rightarrow> process" where
  "emit_errors [] p = p\<lparr>ticks := []\<rparr>"
| "emit_errors (code # rest) p =
     (if on_error p = [] then p\<lparr>trace := trace p @ [Uncaught code], ticks := []\<rparr>
      else emit_errors rest (p\<lparr>trace := trace p @ concat (map (\<lambda>h. h code) (on_error p))\<rparr>))"

definition next_tick :: "process \<Rightarrow> process" where
  "next_tick p = emit_errors (ticks p) p"

text \<open>What a trace shows: the ports bound, the ports a bind was tried on, the lines written.\<close>

fun sockets :: "event list \<Rightarrow> nat list" where
  "sockets [] = []"
| "sockets (Bound port # es) = port # sockets es"
| "sockets (_ # es) = sockets es"

fun listens :: "event list \<Rightarrow> nat list" where
  "listens [] = []"
| "listens (Bound port # es) = port # listens es"
| "listens (BindFailed port _ # es) = port # listens es"
| "listens (_ # es) = listens es"

fun stdout :: "event list \<Rightarrow> string list" where
  "stdout [] = []"
| "stdout (Stdout s # es) = s # stdout es"
| "stdout (_ # es) = stdout es"

fun uncaught :: "event list \<Rightarrow> string list" where
  "uncaught [] = []"
| "uncaught (Uncaught code # es) = code # uncaught es"
| "uncaught (_ # es) = uncaught es"

section \<open>HTTP messages\<close>

text \<open>
  A request as the router sees it: the method in upper case, the pathname and the query
  string of \<open>req.url\<close>, \<open>req.headers\<close> (Node gives the names in lower case, one value each)
  and the body.
\<close>

record request =
  req_method :: string
  req_path :: string
  req_query :: string
  req_headers :: "(string \<times> string) list"
  req_body :: string

text \<open>
  A response body is text written by \<open>res.send\<close>, or the HTML error document that the
  final handler renders for the message \<open>Cannot METHOD PATH\<close> (its markup is not modelled).
\<close>

datatype body = Text string | CannotPage string string

text \<open>
  The response object: the request it answers (\<open>res.req\<close>), the status code, the headers
  set so far and the body. The framing headers that depend on the clock or the
  connection (\<open>Date\<close>, \<open>Connection\<close>, \<open>Content-Length\<close>) are not modelled.
\<close>

record res =
  res_req :: request
  statusCode :: nat
  res_headers :: "(string \<times> string) list"
  res_body :: body

definition new_res :: "request \<Rightarrow> res" where
  "new_res req = \<lparr>res_req = req, statusCode = 200, res_headers = [], res_body = Text []\<rparr>"

text \<open>What goes back to the client.\<close>

definition reply :: "res \<Rightarrow> nat \<times> (string \<times> string) list \<times> body" where
  "reply r = (statusCode r, res_headers r, res_body r)"

definition getHeader :: "res \<Rightarrow> string \<Rightarrow> string option" where
  "getHeader r name = map_of (res_headers r) name"

definition setHeader :: "string \<Rightarrow> string \<Rightarrow> res \<Rightarrow> res" where
  "setHeader name v r = r\<lparr>res_headers := AList.update name v (res_headers r)\<rparr>"

definition removeHeader :: "string \<Rightarrow> res \<Rightarrow> res" where
  "removeHeader name r = r\<lparr>res_headers := AList.delete name (res_headers r)\<rparr>"

section \<open>Entity tags\<close>

text \<open>
  Express's default \<open>etag fn\<close> is the weak tag of the \<open>etag\<close> package:
  \<open>W/"<length in hex>-<the first 27 characters of the base64 SHA-1 digest>"\<close>.
\<close>

type_synonym u32 = "32 word"

definition rotl :: "nat \<Rightarrow> u32 \<Rightarrow> u32" where
  "rotl n w = (push_bit n w) OR (drop_bit (32 - n) w)"

definition pad :: "nat list \<Rightarrow> nat list" where
  "pad m = (let l = length m; k = (119 - l mod 64) mod 64
            in m @ [128] @ replicate k 0 @ map (\<lambda>i. (l * 8) div 256 ^ (7 - i) mod 256) [0..<8])"

definition chunks :: "nat \<Rightarrow> 'a list \<Rightarrow> 'a list list" where
  "chunks n xs = map (\<lambda>i. take n (drop (i * n) xs)) [0..<length xs div n]"

definition be32 :: "nat list \<Rightarrow> u32" where
  "be32 bs = word_of_nat (foldl (\<lambda>a b. a * 256 + b) 0 bs)"

fun schedule :: "nat \<Rightarrow> u32 list \<Rightarrow> u32 list" where
  "schedule 0 w = w"
| "schedule (Suc k) w =
     (let n = length w
      in schedule k (w @ [rotl 1 (w ! (n - 3) XOR w ! (n - 8) XOR w ! (n - 14) XOR w ! (n - 16))]))"

type_synonym sha_state = "u32 \<times> u32 \<times> u32 \<times> u32 \<times> u32"

definition sha_round :: "nat \<Rightarrow> sha_state \<Rightarrow> u32 \<Rightarrow> sha_state" where
  "sha_round i s wi = (case s of (a, b, c, d, e) \<Rightarrow>
     (let f = (if i < 20 then (b AND c) OR (NOT b AND d)
               else if i < 40 then b XOR c XOR d
               else if i < 60 then (b AND c) OR (b AND d) OR (c AND d)
               else b XOR c XOR d);
          k = (if i < 20 then 0x5A827999 else if i < 40 then 0x6ED9EBA1
               else if i < 60 then 0x8F1BBCDC else 0xCA62C1D6)
      in (rotl 5 a + f + e + k + wi, a, rotl 30 b, c, d)))"

fun sha_rounds :: "nat \<Rightarrow> sha_state \<Rightarrow> u32 list \<Rightarrow> sha_state" where
  "sha_rounds i s [] = s"
| "sha_rounds i s (w # ws) = sha_rounds (Suc i) (sha_round i s w) ws"

definition compress :: "sha_state \<Rightarrow> nat list \<Rightarrow> sha_state" where
  "compress h blk = (case h of (h0, h1, h2, h3, h4) \<Rightarrow>
     (case sha_rounds 0 h (schedule 64 (map be32 (chunks 4 blk))) of (a, b, c, d, e) \<Rightarrow>
        (h0 + a, h1 + b, h2 + c, h3 + d, h4 + e)))"

definition sha1 :: "nat list \<Rightarrow> nat list" where
  "sha1 m =
     (case foldl compress (0x67452301, 0xEFCDAB89, 0x98BADCFE, 0x10325476, 0xC3D2E1F0)
             (chunks 64 (pad m))
      of (a, b, c, d, e) \<Rightarrow>
        concat (map (\<lambda>w. map (\<lambda>i. unat (drop_bit (24 - 8 * i) w) mod 256) [0..<4])
                 [a, b, c, d, e]))"

definition b64_alphabet :: string where
  "b64_alphabet = ''ABCDEFGHIJKLMNOPQRSTUVWXYZabcdefghijklmnopqrstuvwxyz0123456789+/''"

fun base64 :: "nat list \<Rightarrow> string" where
  "base64 (a # b # c # rest) =
     [b64_alphabet ! (a div 4), b64_alphabet ! ((a mod 4) * 16 + b div 16),
      b64_alphabet ! ((b mod 16) * 4 + c div 64), b64_alphabet ! (c mod 64)] @ base64 rest"
| "base64 [a, b] =
     [b64_alphabet ! (a div 4), b64_alphabet ! ((a mod 4) * 16 + b div 16),
      b64_alphabet ! ((b mod 16) * 4), CHR ''='']"
| "base64 [a] = [b64_alphabet ! (a div 4), b64_alphabet ! ((a mod 4) * 16), CHR ''='', CHR ''='']"
| "base64 [] = []"

fun hex :: "nat \<Rightarrow> string" where
  "hex n = (if n < 16 then [''0123456789abcdef'' ! n]
            else hex (n div 16) @ [''0123456789abcdef'' ! (n mod 16)])"

definition entitytag :: "string \<Rightarrow> string" where
  "entitytag entity =
     [CHR 0x22] @ hex (length entity) @ ''-'' @ take 27 (base64 (sha1 (map of_char entity)))
       @ [CHR 0x22]"

definition wetag :: "string \<Rightarrow> string" where
  "wetag chunk = ''W/'' @ entitytag chunk"

section \<open>Conditional requests\<close>

text \<open>
  The \<open>fresh\<close> package, which \<open>req.fresh\<close> calls: is the client's cached copy still good?
  A header that is absent or empty is falsy in JavaScript.
\<close>

definition truthy :: "string option \<Rightarrow> bool" where
  "truthy v = (case v of None \<Rightarrow> False | Some s \<Rightarrow> s \<noteq> [])"

text \<open>The characters that \<open>\s\<close> matches in a header value.\<close>

definition is_space :: "char \<Rightarrow> bool" where
  "is_space c = (of_char c \<in> {9, 10, 11, 12, 13, 32, 160 :: nat})"

fun split_on :: "char \<Rightarrow> string \<Rightarrow> string list" where
  "split_on c [] = [[]]"
| "split_on c (x # xs) =
     (if x = c then [] # split_on c xs
      else (case split_on c xs of [] \<Rightarrow> [[x]] | piece # pieces \<Rightarrow> (x # piece) # pieces))"

text \<open>
  \<open>CACHE_CONTROL_NO_CACHE_REGEXP = /(?:^|,)\s*?no-cache\s*?(?:,|$)/\<close>: some
  comma-separated element is \<open>no-cache\<close> between white space.
\<close>

definition no_cache :: "string \<Rightarrow> bool" where
  "no_cache cacheControl =
     list_ex (\<lambda>piece. let rest = dropWhile is_space piece
                      in take 8 rest = ''no-cache'' \<and> list_all is_space (drop 8 rest))
       (split_on CHR '','' cacheControl)"

text \<open>
  \<open>parseTokenList\<close>: the loop over the characters of \<open>str\<close> keeps \<open>start\<close>, \<open>end\<close> and the
  tokens gathered so far; a blank moves \<open>start\<close> only before a token has begun, a comma
  closes the token.
\<close>

definition substring :: "string \<Rightarrow> nat \<Rightarrow> nat \<Rightarrow> string" where
  "substring str a b = take (b - a) (drop a str)"

definition token_step :: "string \<Rightarrow> nat \<times> nat \<times> string list \<Rightarrow> nat \<Rightarrow> nat \<times> nat \<times> string list" where
  "token_step str st i =
     (case st of (start, end, list) \<Rightarrow>
        if str ! i = CHR '' '' then (if start = end then (i + 1, i + 1, list) else (start, end, list))
        else if str ! i = CHR '','' then (i + 1, i + 1, list @ [substring str start end])
        else (start, i + 1, list))"

definition parseTokenList :: "string \<Rightarrow> string list" where
  "parseTokenList str =
     (case foldl (token_step str) (0, 0, []) [0..<length str] of
        (start, end, list) \<Rightarrow> list @ [substring str start end])"

definition etag_matches :: "string \<Rightarrow> string \<Rightarrow> bool" where
  "etag_matches etag noneMatch =
     list_ex (\<lambda>m. m = etag \<or> m = ''W/'' @ etag \<or> ''W/'' @ m = etag) (parseTokenList noneMatch)"

text \<open>
  \<open>fresh(reqHeaders, resHeaders)\<close>. Of the response it reads \<open>etag\<close> and \<open>last-modified\<close>;
  no call of this program sets \<open>Last-Modified\<close>, so \<open>res.get('Last-Modified')\<close> is
  undefined and the \<open>If-Modified-Since\<close> test always finds the copy stale.
\<close>

definition fresh :: "(string \<times> string) list \<Rightarrow> string option \<Rightarrow> bool" where
  "fresh reqHeaders etag =
     (let modifiedSince = map_of reqHeaders ''if-modified-since'';
          noneMatch = map_of reqHeaders ''if-none-match'';
          cacheControl = map_of reqHeaders ''cache-control''
      in if \<not> truthy modifiedSince \<and> \<not> truthy noneMatch then False
         else if (case cacheControl of None \<Rightarrow> False | Some cc \<Rightarrow> no_cache cc) then False
         else if (case noneMatch of None \<Rightarrow> False
                  | Some nm \<Rightarrow> nm \<noteq> [] \<and> nm \<noteq> ''*'' \<and>
                      (case etag of None \<Rightarrow> True
                       | Some t \<Rightarrow> (if t = [] then True else \<not> etag_matches t nm)))
           then False
         else if truthy modifiedSince then False
         else True)"

text \<open>
  The getter \<open>req.fresh\<close> (Express, \<open>lib/request.js\<close>): only for GET and HEAD, only for a
  2xx or 304 status.
\<close>

definition req_fresh :: "res \<Rightarrow> bool" where
  "req_fresh r =
     (let method = req_method (res_req r); status = statusCode r
      in if method \<noteq> ''GET'' \<and> method \<noteq> ''HEAD'' then False
         else if (200 \<le> status \<and> status < 300) \<or> status = 304
           then fresh (req_headers (res_req r)) (getHeader r ''ETag'')
         else False)"

section \<open>The response methods\<close>

text \<open>
  \<open>res.send(body)\<close> for a string (Express, \<open>lib/response.js\<close>), in the order of its
  statements: a missing \<open>Content-Type\<close> becomes \<open>text/html\<close> with the charset of the
  string; a missing \<open>ETag\<close> is generated; a fresh request turns the status into 304; a 204
  or 304 loses its content headers and its body, a 205 its body; a HEAD request ends the
  response without a body. (A \<open>Content-Type\<close> already set would have its charset rewritten;
  nothing in this program sets one before \<open>send\<close>.)
\<close>

definition res_send :: "string \<Rightarrow> res \<Rightarrow> res" where
  "res_send chunk r0 =
     (let r1 = (if getHeader r0 ''Content-Type'' = None
                then setHeader ''Content-Type'' ''text/html; charset=utf-8'' r0 else r0);
          r2 = (if getHeader r1 ''ETag'' = None then setHeader ''ETag'' (wetag chunk) r1 else r1);
          r3 = (if req_fresh r2 then r2\<lparr>statusCode := 304\<rparr> else r2);
          strip = (statusCode r3 = 204 \<or> statusCode r3 = 304);
          r4 = (if strip
                then removeHeader ''Transfer-Encoding''
                       (removeHeader ''Content-Length'' (removeHeader ''Content-Type'' r3))
                else r3);
          r5 = (if statusCode r4 = 205 then removeHeader ''Transfer-Encoding'' r4 else r4);
          chunk' = (if strip \<or> statusCode r4 = 205 then [] else chunk)
      in if req_method (res_req r5) = ''HEAD'' then r5 else r5\<lparr>res_body := Text chunk'\<rparr>)"

text \<open>
  The final handler (\<open>finalhandler\<close>), called when no layer answered: status 404, the
  content headers removed, the security headers and the content type set, and the error
  document as body unless the method is HEAD.
\<close>

definition finalhandler :: "request \<Rightarrow> res \<Rightarrow> res" where
  "finalhandler req r0 =
     (let r1 = r0\<lparr>statusCode := 404\<rparr>;
          r2 = removeHeader ''Content-Range''
                 (removeHeader ''Content-Language'' (removeHeader ''Content-Encoding'' r1));
          r3 = setHeader ''Content-Security-Policy''
                 (''default-src '' @ [CHR 0x27] @ ''none'' @ [CHR 0x27]) r2;
          r4 = setHeader ''X-Content-Type-Options'' ''nosniff'' r3;
          r5 = setHeader ''Content-Type'' ''text/html; charset=utf-8'' r4
      in if req_method req = ''HEAD'' then r5
         else r5\<lparr>res_body := CannotPage (req_method req) (req_path req)\<rparr>)"

section \<open>The application and its router\<close>

text \<open>
  A handler is a function \<open>(req, res, next)\<close>: it may change the response and the process,
  and it either ends the response or calls \<open>next()\<close>.
\<close>

datatype outcome = Ended res | Next res

type_synonym handler = "request \<Rightarrow> res \<Rightarrow> process \<Rightarrow> outcome \<times> process"

text \<open>
  A layer of the router's stack: a middleware mounted at \<open>/\<close> (it matches every path), or
  a route with its path and its stack of handlers, each under a method name in lower case.
\<close>

datatype layer = Middleware handler | Route string "(string \<times> handler) list"

record app =
  router :: "layer list option"

text \<open>\<open>express()\<close>: an application without a router; the router is made on first use.\<close>

definition express :: app where
  "express = \<lparr>router = None\<rparr>"

text \<open>
  The two layers every router starts with (\<open>lazyrouter\<close>): \<open>query\<close> parses the query
  string into \<open>req.query\<close>, which no response depends on; \<open>expressInit\<close> sets
  \<open>X-Powered-By\<close>. Both call \<open>next()\<close>.
\<close>

definition query :: handler where
  "query req r p = (Next r, p)"

definition expressInit :: handler where
  "expressInit req r p = (Next (setHeader ''X-Powered-By'' ''Express'' r), p)"

definition lazyrouter :: "app \<Rightarrow> layer list" where
  "lazyrouter a = (case router a of None \<Rightarrow> [Middleware query, Middleware expressInit] | Some stack \<Rightarrow> stack)"

text \<open>\<open>app.get(path, fn)\<close>: a new route for \<open>path\<close> whose one handler is \<open>fn\<close>, under \<open>get\<close>.\<close>

definition app_get :: "string \<Rightarrow> handler \<Rightarrow> app \<Rightarrow> app" where
  "app_get path fn a = a\<lparr>router := Some (lazyrouter a @ [Route path [(''get'', fn)]])\<rparr>"

definition lower :: "char \<Rightarrow> char" where
  "lower c =
     (case map_of (zip ''ABCDEFGHIJKLMNOPQRSTUVWXYZ'' ''abcdefghijklmnopqrstuvwxyz'') c of
        None \<Rightarrow> c | Some d \<Rightarrow> d)"

definition upper :: "char \<Rightarrow> char" where
  "upper c =
     (case map_of (zip ''abcdefghijklmnopqrstuvwxyz'' ''ABCDEFGHIJKLMNOPQRSTUVWXYZ'') c of
        None \<Rightarrow> c | Some d \<Rightarrow> d)"

text \<open>
  The regular expression of a route whose path has no parameter (\<open>path-to-regexp\<close>, not
  strict, not case sensitive, anchored at the end): the path itself, with or without a
  final slash. For \<open>/\<close> it is \<open>/^\/?$/i\<close>.
\<close>

definition path_regexp :: "string \<Rightarrow> string \<Rightarrow> bool" where
  "path_regexp pattern path =
     (let pat = map lower pattern; s = map lower path
      in if pat \<noteq> [] \<and> last pat = CHR ''/'' then s = pat \<or> s = butlast pat
         else s = pat \<or> s = pat @ ''/'')"

text \<open>\<open>Route.prototype._handles_method\<close>: a route without a \<open>head\<close> handler answers HEAD as GET.\<close>

definition route_method :: "(string \<times> handler) list \<Rightarrow> string \<Rightarrow> string" where
  "route_method stack method =
     (let name = map lower method
      in if name = ''head'' \<and> ''head'' \<notin> set (map fst stack) then ''get'' else name)"

definition handles_method :: "(string \<times> handler) list \<Rightarrow> string \<Rightarrow> bool" where
  "handles_method stack method = (route_method stack method \<in> set (map fst stack))"

text \<open>\<open>Route.prototype._options\<close>: the methods of the route, \<open>HEAD\<close> added to a \<open>GET\<close>.\<close>

definition route_options :: "(string \<times> handler) list \<Rightarrow> string list" where
  "route_options stack =
     (let methods = remdups (map fst stack);
          methods' = (if ''get'' \<in> set methods \<and> ''head'' \<notin> set methods
                      then methods @ [''head''] else methods)
      in map (map upper) methods')"

fun appendMethods :: "string list \<Rightarrow> string list \<Rightarrow> string list" where
  "appendMethods list [] = list"
| "appendMethods list (m # ms) = appendMethods (if m \<in> set list then list else list @ [m]) ms"

text \<open>
  \<open>Route.prototype.dispatch\<close>: the handlers of the route in order, those under another
  method skipped; after the last one the router goes on with its next layer.
\<close>

fun dispatch :: "(string \<times> handler) list \<Rightarrow> string \<Rightarrow> request \<Rightarrow> res \<Rightarrow> process \<Rightarrow> outcome \<times> process" where
  "dispatch [] method req r p = (Next r, p)"
| "dispatch ((m, fn) # stack) method req r p =
     (if m \<noteq> method then dispatch stack method req r p
      else (case fn req r p of
              (Ended r', p') \<Rightarrow> (Ended r', p')
            | (Next r', p') \<Rightarrow> dispatch stack method req r' p'))"

fun join :: "string list \<Rightarrow> string" where
  "join [] = []"
| "join [x] = x"
| "join (x # y # ys) = x @ '','' @ join (y # ys)"

text \<open>
  The end of the stack. An OPTIONS request that matched the path of some route is
  answered with the methods gathered (\<open>sendOptionsResponse\<close>); everything else goes to the
  final handler.
\<close>

definition sendOptionsResponse :: "res \<Rightarrow> string list \<Rightarrow> res" where
  "sendOptionsResponse r options = res_send (join options) (setHeader ''Allow'' (join options) r)"

definition router_done :: "string list \<Rightarrow> request \<Rightarrow> res \<Rightarrow> res" where
  "router_done options req r =
     (if req_method req = ''OPTIONS'' \<and> options \<noteq> [] then sendOptionsResponse r options
      else finalhandler req r)"

text \<open>
  \<open>Router.prototype.handle\<close>: the layers in order. A route is entered when its path
  matches and it handles the method, or the method is HEAD; an OPTIONS request gathers
  the methods of every route whose path matches.
\<close>

fun router_handle :: "layer list \<Rightarrow> string list \<Rightarrow> request \<Rightarrow> res \<Rightarrow> process \<Rightarrow> res \<times> process" where
  "router_handle [] options req r p = (router_done options req r, p)"
| "router_handle (Middleware fn # stack) options req r p =
     (case fn req r p of
        (Ended r', p') \<Rightarrow> (r', p')
      | (Next r', p') \<Rightarrow> router_handle stack options req r' p')"
| "router_handle (Route path handlers # stack) options req r p =
     (if \<not> path_regexp path (req_path req) then router_handle stack options req r p
      else if handles_method handlers (req_method req) \<or> req_method req = ''HEAD''
        then (case dispatch handlers (route_method handlers (req_method req)) req r p of
                (Ended r', p') \<Rightarrow> (r', p')
              | (Next r', p') \<Rightarrow> router_handle stack options req r' p')
      else router_handle stack
             (if req_method req = ''OPTIONS'' then appendMethods options (route_options handlers)
              else options)
             req r p)"

text \<open>
  \<open>app.handle(req, res)\<close>, the request listener of the server: the router's answer, or the
  final handler's when the application has no router.
\<close>

definition handle :: "app \<Rightarrow> request \<Rightarrow> process \<Rightarrow> res \<times> process" where
  "handle a req p =
     (case router a of
        None \<Rightarrow> (finalhandler req (new_res req), p)
      | Some stack \<Rightarrow> router_handle stack [] req (new_res req) p)"

section \<open>The script\<close>

text \<open>The route's handler, \<open>(req, res) => { res.send('Good Afternoon!'); }\<close>.\<close>

definition handler :: handler where
  "handler req r p = (Ended (res_send ''Good Afternoon!'' r), p)"

text \<open>The statements of \<open>index.js\<close>, in order.\<close>

definition index_js :: "environment \<Rightarrow> app \<times> process" where
  "index_js e =
     (let app = express;
          app = app_get ''/'' handler app;
          p = app_listen e 3000 boot;
          p = console_log ''Server is listening on http://localhost:3000'' p
      in (app, p))"

text \<open>\<open>node index.js\<close>: the script, then the next tick.\<close>

definition node :: "environment \<Rightarrow> app \<times> process" where
  "node e = (case index_js e of (app, p) \<Rightarrow> (app, next_tick p))"

text \<open>A trace has a line written before a socket is bound.\<close>

fun log_then_bind :: "event list \<Rightarrow> bool" where
  "log_then_bind [] = False"
| "log_then_bind (Stdout s # es) = (sockets es \<noteq> [] \<or> log_then_bind es)"
| "log_then_bind (_ # es) = log_then_bind es"

text \<open>Two environments to run the script in: port 3000 free, and port 3000 taken.\<close>

definition port_free :: environment where
  "port_free = \<lparr>argv = [''node'', ''index.js''], env = [], bind_errno = (\<lambda>port. None)\<rparr>"

definition port_in_use :: environment where
  "port_in_use =
     \<lparr>argv = [''node'', ''index.js''], env = [],
      bind_errno = (\<lambda>port. if port = 3000 then Some ''EADDRINUSE'' else None)\<rparr>"

section \<open>Requests\<close>

text \<open>
  The running program is the pair of the application and the process that \<open>node\<close>
  returns; the server gives each request to \<open>app.handle\<close> with a new response. (Requests
  arrive only while the process listens; \<open>serve\<close> says what the request listener answers,
  in whatever state the process is.)
\<close>

definition serve :: "app \<times> process \<Rightarrow> request \<Rightarrow> res \<times> process" where
  "serve w req = handle (fst w) req (snd w)"

fun serve_all :: "app \<times> process \<Rightarrow> request list \<Rightarrow> res list \<times> process" where
  "serve_all w [] = ([], snd w)"
| "serve_all w (req # reqs) =
     (case serve w req of (r, p) \<Rightarrow>
        (case serve_all (fst w, p) reqs of (rs, p') \<Rightarrow> (r # rs, p')))"



text \<open>
  Some requests: what \<open>curl\<close> sends, and what a browser sends when it reloads the page,
  with the entity tag it was given the first time.
\<close>

definition plain_get :: request where
  "plain_get =
     \<lparr>req_method = ''GET'', req_path = ''/'', req_query = ''lang=en'',
      req_headers = [(''host'', ''localhost:3000''), (''user-agent'', ''curl/8.5.0''),
                     (''accept'', ''text/plain'')],
      req_body = []\<rparr>"





section \<open>The container build recipe\<close>








section \<open>Startup\<close>

lemma app_index_js:
  "fst (index_js e) =
     \<lparr>router = Some [Middleware query, Middleware expressInit, Route ''/'' [(''get'', handler)]]\<rparr>"
  by (simp add: index_js_def Let_def app_get_def lazyrouter_def express_def)

lemma app_node: "fst (node e) = fst (index_js e)"
  by (simp add: node_def split_def)

lemma process_index_js:
  "snd (index_js e) =
     (case bind_errno e 3000 of
        None \<Rightarrow>
          \<lparr>trace = [Bound 3000, Stdout ''Server is listening on http://localhost:3000''],
           ticks = [], on_error = []\<rparr>
      | Some code \<Rightarrow>
          \<lparr>trace = [BindFailed 3000 code, Stdout ''Server is listening on http://localhost:3000''],
           ticks = [code], on_error = []\<rparr>)"
  by (simp add: index_js_def Let_def app_listen_def console_log_def boot_def split: option.split)

lemma process_node:
  "snd (node e) =
     (case bind_errno e 3000 of
        None \<Rightarrow>
          \<lparr>trace = [Bound 3000, Stdout ''Server is listening on http://localhost:3000''],
           ticks = [], on_error = []\<rparr>
      | Some code \<Rightarrow>
          \<lparr>trace = [BindFailed 3000 code, Stdout ''Server is listening on http://localhost:3000'',
                    Uncaught code],
           ticks = [], on_error = []\<rparr>)"
proof -
  have "snd (node e) = next_tick (snd (index_js e))"
    by (simp add: node_def split_def)
  then show ?thesis
    by (simp add: process_index_js next_tick_def split: option.split)
qed



text \<open>
  C4, as the code has it. Every run writes exactly one line to standard output, and no
  run binds a socket after writing it; when the bind succeeds the run is bind, then log.
  The line is not held back until the listener is bound: it is written after the call of
  \<open>app.listen\<close> has returned, also when that call bound nothing.
\<close>

theorem startup_line_after_listen:
  "stdout (trace (snd (node e))) = [''Server is listening on http://localhost:3000'']
   \<and> \<not> log_then_bind (trace (snd (node e)))
   \<and> (bind_errno e 3000 = None \<longrightarrow>
        trace (snd (node e)) =
          [Bound 3000, Stdout ''Server is listening on http://localhost:3000''])"
  by (simp add: process_node split: option.split)

theorem startup_line_after_listen_witness:
  "stdout (trace (snd (node port_free))) = [''Server is listening on http://localhost:3000'']
   \<and> \<not> log_then_bind (trace (snd (node port_free)))
   \<and> trace (snd (node port_free)) =
        [Bound 3000, Stdout ''Server is listening on http://localhost:3000'']"
  using startup_line_after_listen [of port_free]
  by (simp add: port_free_def)

text \<open>
  C4, as the claim has it, fails when port 3000 is taken: the line is written although
  no listener is bound, before or after.
\<close>

theorem startup_line_without_listener:
  "stdout (trace (snd (node port_in_use))) = [''Server is listening on http://localhost:3000'']
   \<and> sockets (trace (snd (node port_in_use))) = []"
  by (simp add: process_node port_in_use_def)

text \<open>
  C6. The script registers no listener for the server's \<open>'error'\<close> event. Every run tries
  the bind once and writes the startup line and nothing else to standard output; when the
  bind fails, the error is thrown uncaught and that ends the run.
\<close>

theorem no_error_handling:
  "on_error (snd (node e)) = []
   \<and> listens (trace (snd (node e))) = [3000]
   \<and> stdout (trace (snd (node e))) = [''Server is listening on http://localhost:3000'']
   \<and> (bind_errno e 3000 = Some code \<longrightarrow>
        uncaught (trace (snd (node e))) = [code] \<and> last (trace (snd (node e))) = Uncaught code)"
  by (simp add: process_node split: option.split)

theorem no_error_handling_witness:
  "on_error (snd (node port_in_use)) = []
   \<and> listens (trace (snd (node port_in_use))) = [3000]
   \<and> stdout (trace (snd (node port_in_use))) = [''Server is listening on http://localhost:3000'']
   \<and> uncaught (trace (snd (node port_in_use))) = [''EADDRINUSE'']
   \<and> last (trace (snd (node port_in_use))) = Uncaught ''EADDRINUSE''"
  using no_error_handling [of port_in_use "''EADDRINUSE''"]
  by (simp add: port_in_use_def)

text \<open>
  C9. The script writes the startup line whatever the bind of port 3000 gave; when the
  bind fails the run is: the failed bind, the line on standard output, the uncaught error
  that ends the process. The line says nothing about the bind.
\<close>

theorem startup_line_unconditional:
  "stdout (trace (snd (index_js e))) = [''Server is listening on http://localhost:3000'']
   \<and> (bind_errno e 3000 = Some code \<longrightarrow>
        trace (snd (node e)) =
          [BindFailed 3000 code, Stdout ''Server is listening on http://localhost:3000'',
           Uncaught code])"
  by (simp add: process_node process_index_js split: option.split)

theorem startup_line_unconditional_witness:
  "stdout (trace (snd (index_js port_in_use))) = [''Server is listening on http://localhost:3000'']
   \<and> trace (snd (node port_in_use)) =
        [BindFailed 3000 ''EADDRINUSE'', Stdout ''Server is listening on http://localhost:3000'',
         Uncaught ''EADDRINUSE'']"
  using startup_line_unconditional [of port_in_use "''EADDRINUSE''"]
  by (simp add: port_in_use_def)

section \<open>Routing\<close>

lemma lower_slash: "lower c = CHR ''/'' \<longleftrightarrow> c = CHR ''/''"
  by (simp add: lower_def)

lemma root_regexp: "path_regexp ''/'' path \<longleftrightarrow> path = ''/'' \<or> path = []"
proof -
  have "map lower path = ''/'' \<longleftrightarrow> path = ''/''"
    by (cases path) (auto simp: lower_slash)
  moreover have "lower CHR ''/'' = CHR ''/''"
    by (simp add: lower_def)
  ultimately show ?thesis
    by (simp add: path_regexp_def Let_def)
qed

lemma method_get: "route_method [(''get'', fn)] ''GET'' = ''get''"
  by (simp add: route_method_def lower_def)

lemma method_head: "route_method [(''get'', fn)] ''HEAD'' = ''get''"
  by (simp add: route_method_def lower_def)

lemma powered_by:
  "setHeader ''X-Powered-By'' ''Express'' (new_res req) =
     \<lparr>res_req = req, statusCode = 200, res_headers = [(''X-Powered-By'', ''Express'')],
      res_body = Text []\<rparr>"
  by (simp add: setHeader_def new_res_def)

lemma handle_root:
  assumes "req_path req = ''/''" and "req_method req = ''GET'' \<or> req_method req = ''HEAD''"
  shows "handle (fst (node e)) req p =
    (res_send ''Good Afternoon!'' (setHeader ''X-Powered-By'' ''Express'' (new_res req)), p)"
proof -
  have m: "route_method [(''get'', handler)] (req_method req) = ''get''"
    using assms(2) method_get method_head by auto
  show ?thesis
    by (simp add: handle_def app_node app_index_js query_def expressInit_def root_regexp assms(1)
      handles_method_def m handler_def)
qed

lemma handle_elsewhere:
  assumes "req_path req \<noteq> ''/''" and "req_path req \<noteq> []"
  shows "handle (fst (node e)) req p =
    (finalhandler req (setHeader ''X-Powered-By'' ''Express'' (new_res req)), p)"
  using assms
  by (simp add: handle_def app_node app_index_js query_def expressInit_def root_regexp
      router_done_def)

section \<open>What \<open>res.send\<close> answers for the route\<close>

lemma send_root:
  assumes "req_method req = ''GET'' \<or> req_method req = ''HEAD''"
  shows "reply (res_send ''Good Afternoon!'' (setHeader ''X-Powered-By'' ''Express'' (new_res req))) =
    (if fresh (req_headers req) (Some (wetag ''Good Afternoon!''))
     then (304, [(''X-Powered-By'', ''Express''), (''ETag'', wetag ''Good Afternoon!'')], Text [])
     else (200,
           [(''X-Powered-By'', ''Express''), (''Content-Type'', ''text/html; charset=utf-8''),
            (''ETag'', wetag ''Good Afternoon!'')],
           if req_method req = ''HEAD'' then Text [] else Text ''Good Afternoon!''))"
proof -
  define r0 where "r0 =
    \<lparr>res_req = req, statusCode = 200, res_headers = [(''X-Powered-By'', ''Express'')],
     res_body = Text []\<rparr>"
  define r1 where "r1 =
    \<lparr>res_req = req, statusCode = 200,
     res_headers = [(''X-Powered-By'', ''Express''), (''Content-Type'', ''text/html; charset=utf-8'')],
     res_body = Text []\<rparr>"
  define r2 where "r2 =
    \<lparr>res_req = req, statusCode = 200,
     res_headers = [(''X-Powered-By'', ''Express''), (''Content-Type'', ''text/html; charset=utf-8''),
                    (''ETag'', wetag ''Good Afternoon!'')],
     res_body = Text []\<rparr>"
  define r3 where "r3 =
    \<lparr>res_req = req, statusCode = 304,
     res_headers = [(''X-Powered-By'', ''Express''), (''ETag'', wetag ''Good Afternoon!'')],
     res_body = Text []\<rparr>"
  have s1: "(if getHeader r0 ''Content-Type'' = None
             then setHeader ''Content-Type'' ''text/html; charset=utf-8'' r0 else r0) = r1"
    by (simp add: r0_def r1_def getHeader_def setHeader_def)
  have s2: "(if getHeader r1 ''ETag'' = None
             then setHeader ''ETag'' (wetag ''Good Afternoon!'') r1 else r1) = r2"
    by (simp add: r1_def r2_def getHeader_def setHeader_def)
  have e: "getHeader r2 ''ETag'' = Some (wetag ''Good Afternoon!'')"
    by (simp add: r2_def getHeader_def)
  have q: "res_req r2 = req" and c: "statusCode r2 = 200"
    by (simp_all add: r2_def)
  have f: "req_fresh r2 = fresh (req_headers req) (Some (wetag ''Good Afternoon!''))"
    using assms by (auto simp: req_fresh_def e q c)
  have d: "removeHeader ''Transfer-Encoding''
             (removeHeader ''Content-Length'' (removeHeader ''Content-Type'' (r2\<lparr>statusCode := 304\<rparr>)))
           = r3"
    by (simp add: r2_def r3_def removeHeader_def)
  have q3: "res_req r3 = req" and c3: "statusCode r3 = 304"
    by (simp_all add: r3_def)
  have fresh_case: "res_send ''Good Afternoon!'' r0 =
      (if req_method req = ''HEAD'' then r3 else r3\<lparr>res_body := Text []\<rparr>)"
    if "fresh (req_headers req) (Some (wetag ''Good Afternoon!''))"
    unfolding res_send_def Let_def s1 s2 f
    by (simp add: that d q3 c3)
  have stale_case: "res_send ''Good Afternoon!'' r0 =
      (if req_method req = ''HEAD'' then r2 else r2\<lparr>res_body := Text ''Good Afternoon!''\<rparr>)"
    if "\<not> fresh (req_headers req) (Some (wetag ''Good Afternoon!''))"
    unfolding res_send_def Let_def s1 s2 f
    by (simp add: that q c)
  show ?thesis
  proof (cases "fresh (req_headers req) (Some (wetag ''Good Afternoon!''))")
    case True
    then show ?thesis
      by (simp add: powered_by fresh_case [unfolded r0_def] r3_def reply_def)
  next
    case False
    then show ?thesis
      by (simp add: powered_by stale_case [unfolded r0_def] r2_def reply_def)
  qed
qed

lemma fresh_needs_none_match:
  "\<not> truthy (map_of hs ''if-none-match'') \<Longrightarrow> \<not> fresh hs t"
  by (auto simp: fresh_def Let_def truthy_def split: option.splits)

lemma reply_root:
  assumes "req_path req = ''/''" and "req_method req = ''GET'' \<or> req_method req = ''HEAD''"
  shows "reply (fst (serve (node e) req)) =
    (if fresh (req_headers req) (Some (wetag ''Good Afternoon!''))
     then (304, [(''X-Powered-By'', ''Express''), (''ETag'', wetag ''Good Afternoon!'')], Text [])
     else (200,
           [(''X-Powered-By'', ''Express''), (''Content-Type'', ''text/html; charset=utf-8''),
            (''ETag'', wetag ''Good Afternoon!'')],
           if req_method req = ''HEAD'' then Text [] else Text ''Good Afternoon!''))"
  by (simp only: serve_def handle_root [OF assms] fst_conv send_root [OF assms(2)])

section \<open>The entity tag of the fixed body\<close>


























section \<open>The route \<open>/\<close>\<close>




text \<open>
  C5, as the code has it. The response with status 200 to a GET of \<open>/\<close> carries the fixed
  string as its body and the content type that \<open>res.send\<close> gives a string,
  \<open>text/html; charset=utf-8\<close>, whatever the request's \<open>accept\<close> header or any other
  part of the request is.
\<close>

theorem get_root_content_type:
  assumes "req_method req = ''GET''" and "req_path req = ''/''"
    and "statusCode (fst (serve (node e) req)) = 200"
  shows "getHeader (fst (serve (node e) req)) ''Content-Type'' = Some ''text/html; charset=utf-8''
    \<and> res_body (fst (serve (node e) req)) = Text ''Good Afternoon!''"
proof -
  have r: "reply (fst (serve (node e) req)) =
      (if fresh (req_headers req) (Some (wetag ''Good Afternoon!''))
       then (304, [(''X-Powered-By'', ''Express''), (''ETag'', wetag ''Good Afternoon!'')], Text [])
       else (200,
             [(''X-Powered-By'', ''Express''), (''Content-Type'', ''text/html; charset=utf-8''),
              (''ETag'', wetag ''Good Afternoon!'')],
             if req_method req = ''HEAD'' then Text [] else Text ''Good Afternoon!''))"
    using reply_root [of req e] assms(1,2) by simp
  have stale: "\<not> fresh (req_headers req) (Some (wetag ''Good Afternoon!''))"
    using r assms(3) by (auto simp: reply_def split: if_splits)
  show ?thesis
    using r stale assms(1) by (simp add: reply_def getHeader_def)
qed

theorem get_root_content_type_witness:
  "getHeader (fst (serve (node port_free) plain_get)) ''Content-Type''
     = Some ''text/html; charset=utf-8''
   \<and> res_body (fst (serve (node port_free) plain_get)) = Text ''Good Afternoon!''"
proof -
  have m: "req_method plain_get = ''GET''" and p: "req_path plain_get = ''/''"
    by (simp_all add: plain_get_def)
  have n: "\<not> truthy (map_of (req_headers plain_get) ''if-none-match'')"
    by (simp add: plain_get_def truthy_def)
  have "reply (fst (serve (node port_free) plain_get)) =
     (200,
      [(''X-Powered-By'', ''Express''), (''Content-Type'', ''text/html; charset=utf-8''),
       (''ETag'', wetag ''Good Afternoon!'')],
      Text ''Good Afternoon!'')"
    using reply_root [of plain_get port_free] m p fresh_needs_none_match [OF n] by simp
  then have s: "statusCode (fst (serve (node port_free) plain_get)) = 200"
    by (simp add: reply_def)
  show ?thesis
    by (rule get_root_content_type [OF m p s])
qed

text \<open>
  C5, as the claim has it, fails: the content type of the successful response is not a
  plain-text one. This is what \<open>curl http://localhost:3000/?lang=en -H 'Accept: text/plain'\<close>
  gets.
\<close>

theorem get_root_is_html:
  "statusCode (fst (serve (node port_free) plain_get)) = 200
   \<and> map_of (req_headers plain_get) ''accept'' = Some ''text/plain''
   \<and> getHeader (fst (serve (node port_free) plain_get)) ''Content-Type''
       = Some ''text/html; charset=utf-8''"
proof -
  have m: "req_method plain_get = ''GET''" and p: "req_path plain_get = ''/''"
    by (simp_all add: plain_get_def)
  have n: "\<not> truthy (map_of (req_headers plain_get) ''if-none-match'')"
    by (simp add: plain_get_def truthy_def)
  have "reply (fst (serve (node port_free) plain_get)) =
     (200,
      [(''X-Powered-By'', ''Express''), (''Content-Type'', ''text/html; charset=utf-8''),
       (''ETag'', wetag ''Good Afternoon!'')],
      Text ''Good Afternoon!'')"
    using reply_root [of plain_get port_free] m p fresh_needs_none_match [OF n] by simp
  then show ?thesis
    by (simp add: reply_def getHeader_def) (simp add: plain_get_def)
qed




section \<open>Every other path\<close>



section \<open>No state\<close>

lemma handle_node:
  "handle (fst (node e)) req p = (fst (handle (fst (node port_free)) req boot), p)"
proof (cases "req_path req = ''/'' \<or> req_path req = []")
  case False
  then show ?thesis
    by (simp add: handle_elsewhere)
next
  case True
  then have match: "path_regexp ''/'' (req_path req)"
    by (simp add: root_regexp)
  show ?thesis
  proof (cases "handles_method [(''get'', handler)] (req_method req) \<or> req_method req = ''HEAD''")
    case False
    then show ?thesis
      by (simp add: handle_def app_node app_index_js query_def expressInit_def match)
  next
    case True
    then show ?thesis
      by (simp add: handle_def app_node app_index_js query_def expressInit_def match handler_def)
  qed
qed

lemma serve_node: "serve (fst (node e), p) req = (fst (serve (node port_free) req), p)"
proof -
  have "handle (fst (node port_free)) req (snd (node port_free)) =
      (fst (handle (fst (node port_free)) req boot), snd (node port_free))"
    by (rule handle_node)
  then show ?thesis
    by (simp add: serve_def handle_node [of e req p])
qed

lemma serve_all_node:
  "serve_all (fst (node e), p) reqs = (map (\<lambda>req. fst (serve (node port_free) req)) reqs, p)"
  by (induction reqs) (simp_all add: serve_node)

text \<open>
  C7. Handling a request leaves the process as it was, whatever state it is in, and the
  response is the same in every state of the process and in every environment the
  program was started in: it is a function of the request alone. So a run of requests
  gets, one by one, the responses each would get alone, and ends in the state it began in.
\<close>

theorem stateless:
  "snd (handle (fst (node e)) req p) = p
   \<and> fst (handle (fst (node e)) req p) = fst (handle (fst (node e')) req p')
   \<and> serve_all (node e) reqs = (map (\<lambda>req. fst (serve (node e) req)) reqs, snd (node e))"
proof -
  have "snd (handle (fst (node e)) req p) = p"
    by (simp add: handle_node [of e req p])
  moreover have "fst (handle (fst (node e)) req p) = fst (handle (fst (node e')) req p')"
    by (simp add: handle_node [of e req p] handle_node [of e' req p'])
  moreover have "serve_all (node e) reqs =
      (map (\<lambda>req. fst (serve (node e) req)) reqs, snd (node e))"
    using serve_all_node [of e "snd (node e)" reqs] serve_node [of e "snd (node e)"]
    by simp
  ultimately show ?thesis by blast
qed

section \<open>The build\<close>


end
